theory Spec2Isabelle
  imports Complex_Main "HOL-Library.Word"
begin

section \<open>Machine types of p4est\_base.c\<close>

text \<open>
  The C types of the file: \<open>int\<close> and \<open>int32_t\<close> are 32-bit words (\<open>+\<close> and \<open>-\<close> wrap
  around, \<open>sint\<close> reads the two's-complement value), \<open>size_t\<close> and the pointer types
  (\<open>void *\<close>, \<open>p4est_handler_t\<close>, \<open>sig_t\<close>) are 64-bit words. The null pointer is the
  word 0.
\<close>

type_synonym c_int = "32 word"
type_synonym size_t = "64 word"
type_synonym ptr = "64 word"
type_synonym sig_t = "64 word"

abbreviation (input) NULL :: ptr where
  "NULL \<equiv> 0"

text \<open>\<open>SIG_ERR\<close> of \<open>signal.h\<close>: the function pointer \<open>(sig_t) -1\<close>.\<close>

definition SIG_ERR :: sig_t where
  "SIG_ERR = - 1"

text \<open>The signal numbers the file names; every other number is \<open>SIGOTHER n\<close>.\<close>

datatype signum = SIGINT | SIGSEGV | SIGUSR2 | SIGOTHER int

section \<open>The lookup table\<close>

definition p4est_log_lookup_table :: "int list" where
  "p4est_log_lookup_table =
  [ -1, 0, 1, 1, 2, 2, 2, 2, 3, 3, 3, 3, 3, 3, 3, 3,
     4, 4, 4, 4, 4, 4, 4, 4, 4, 4, 4, 4, 4, 4, 4, 4,
     5, 5, 5, 5, 5, 5, 5, 5, 5, 5, 5, 5, 5, 5, 5, 5,
     5, 5, 5, 5, 5, 5, 5, 5, 5, 5, 5, 5, 5, 5, 5, 5,
     6, 6, 6, 6, 6, 6, 6, 6, 6, 6, 6, 6, 6, 6, 6, 6,
     6, 6, 6, 6, 6, 6, 6, 6, 6, 6, 6, 6, 6, 6, 6, 6,
     6, 6, 6, 6, 6, 6, 6, 6, 6, 6, 6, 6, 6, 6, 6, 6,
     6, 6, 6, 6, 6, 6, 6, 6, 6, 6, 6, 6, 6, 6, 6, 6,
     7, 7, 7, 7, 7, 7, 7, 7, 7, 7, 7, 7, 7, 7, 7, 7,
     7, 7, 7, 7, 7, 7, 7, 7, 7, 7, 7, 7, 7, 7, 7, 7,
     7, 7, 7, 7, 7, 7, 7, 7, 7, 7, 7, 7, 7, 7, 7, 7,
     7, 7, 7, 7, 7, 7, 7, 7, 7, 7, 7, 7, 7, 7, 7, 7,
     7, 7, 7, 7, 7, 7, 7, 7, 7, 7, 7, 7, 7, 7, 7, 7,
     7, 7, 7, 7, 7, 7, 7, 7, 7, 7, 7, 7, 7, 7, 7, 7,
     7, 7, 7, 7, 7, 7, 7, 7, 7, 7, 7, 7, 7, 7, 7, 7,
     7, 7, 7, 7, 7, 7, 7, 7, 7, 7, 7, 7, 7, 7, 7, 7 ]"

section \<open>The comparator\<close>

text \<open>
  \<open>return (int32_t) v1 - (int32_t) v2;\<close> The two arguments are pointers and the function
  casts the pointers themselves (it does not dereference them): the cast keeps the low 32
  bits. The subtraction is done in \<open>int\<close>; C leaves its overflow undefined, the model
  wraps around as two's-complement hardware does.
\<close>

definition p4est_int32_compare :: "ptr \<Rightarrow> ptr \<Rightarrow> c_int" where
  "p4est_int32_compare v1 v2 = (ucast v1 :: 32 word) - (ucast v2 :: 32 word)"

section \<open>The process state and its platform\<close>

text \<open>
  What the process does that is visible from outside, in the order it happens: text
  written to the error stream, the two flushes, the call of the registered abort handler
  with its data pointer, and the call of \<open>abort ()\<close>.
\<close>

datatype event =
    Stderr string
  | Fflush_stdout
  | Fflush_stderr
  | Handler_call ptr ptr
  | Libc_abort

text \<open>
  The platform the file is compiled and linked against. \<open>'h\<close> is the state of the
  platform allocator, of which nothing is assumed. \<open>signal_refused\<close> says for which signal
  numbers \<open>signal ()\<close> returns \<open>SIG_ERR\<close>; \<open>symbol_of\<close> is the string \<open>backtrace_symbols ()\<close>
  gives for a return address and \<open>symbols_alloc_fails\<close> says when that function returns
  the null pointer; \<open>P4EST_BACKTRACE\<close> is the preprocessor symbol of that name.
\<close>

record 'h platform =
  libc_malloc :: "size_t \<Rightarrow> 'h \<Rightarrow> ptr \<times> 'h"
  libc_calloc :: "size_t \<Rightarrow> size_t \<Rightarrow> 'h \<Rightarrow> ptr \<times> 'h"
  libc_realloc :: "ptr \<Rightarrow> size_t \<Rightarrow> 'h \<Rightarrow> ptr \<times> 'h"
  libc_free :: "ptr \<Rightarrow> 'h \<Rightarrow> 'h"
  signal_refused :: "signum \<Rightarrow> bool"
  p4est_signal_handler_addr :: sig_t
  symbol_of :: "ptr \<Rightarrow> string"
  symbols_alloc_fails :: "'h \<Rightarrow> bool"
  P4EST_BACKTRACE :: bool

text \<open>
  The static variables of the file (the first nine fields, under their own names), the
  allocator's state, the signal dispositions the operating system holds for the process,
  the return addresses on the call stack (innermost first) and the events so far.
\<close>

record 'h world =
  malloc_count :: c_int
  free_count :: c_int
  p4est_base_identifier :: c_int
  p4est_abort_handler :: ptr
  p4est_abort_data :: ptr
  signals_caught :: c_int
  system_int_handler :: sig_t
  system_segv_handler :: sig_t
  system_usr2_handler :: sig_t
  heap :: 'h
  dispositions :: "signum \<Rightarrow> sig_t"
  call_stack :: "ptr list"
  events :: "event list"

text \<open>How the process ends once \<open>p4est_abort\<close> is entered.\<close>

datatype exit_kind =
    Aborted \<comment> \<open>\<open>abort ()\<close> was reached\<close>
  | Null_dereference \<comment> \<open>\<open>bt_strings[i]\<close> was read with \<open>bt_strings\<close> null\<close>

subsection \<open>Platform functions\<close>

text \<open>
  \<open>signal (sig, h)\<close>: a refused call returns \<open>SIG_ERR\<close> and changes nothing; any other
  call installs \<open>h\<close> and returns the disposition it replaces.
\<close>

definition libc_signal ::
  "'h platform \<Rightarrow> signum \<Rightarrow> sig_t \<Rightarrow> 'h world \<Rightarrow> sig_t \<times> 'h world" where
  "libc_signal P sig h w =
     (if signal_refused P sig then (SIG_ERR, w)
      else (dispositions w sig, w\<lparr>dispositions := (dispositions w)(sig := h)\<rparr>))"

text \<open>\<open>backtrace (buffer, n)\<close>: the innermost \<open>n\<close> return addresses.\<close>

definition libc_backtrace :: "nat \<Rightarrow> 'h world \<Rightarrow> ptr list" where
  "libc_backtrace n w = take n (call_stack w)"

text \<open>\<open>backtrace_symbols (buffer, size)\<close>: one string per address, or the null pointer.\<close>

definition libc_backtrace_symbols :: "'h platform \<Rightarrow> ptr list \<Rightarrow> 'h \<Rightarrow> string list option" where
  "libc_backtrace_symbols P buffer h =
     (if symbols_alloc_fails P h then None else Some (map (symbol_of P) buffer))"

definition emit :: "event \<Rightarrow> 'h world \<Rightarrow> 'h world" where
  "emit e w = w\<lparr>events := events w @ [e]\<rparr>"

text \<open>The text written to the error stream so far.\<close>

fun stderr_text :: "event list \<Rightarrow> string" where
  "stderr_text [] = []"
| "stderr_text (Stderr s # es) = s @ stderr_text es"
| "stderr_text (e # es) = stderr_text es"

subsection \<open>Formatting\<close>

definition newline :: char where
  "newline = CHR 0x0A"

definition digit_char :: "nat \<Rightarrow> char" where
  "digit_char d = ''0123456789'' ! d"

text \<open>The decimal digits of a natural number, as \<open>%d\<close> and \<open>%ld\<close> print them.\<close>

fun dec :: "nat \<Rightarrow> string" where
  "dec n = (if n < 10 then [digit_char n] else dec (n div 10) @ [digit_char (n mod 10)])"

declare dec.simps [simp del]

definition fmt_d :: "c_int \<Rightarrow> string" where
  "fmt_d x = (if sint x < 0 then CHR ''-'' # dec (nat (- sint x)) else dec (nat (sint x)))"

text \<open>
  The common start of \<open>p4est_signal_handler\<close> and \<open>p4est_abort\<close>:
  \<open>snprintf (prefix, BUFSIZ, "[%d] ", p4est_base_identifier)\<close> when the identifier is not
  negative, the empty string otherwise. The text has at most 14 characters and \<open>BUFSIZ\<close>
  is at least 256, so \<open>snprintf\<close> never cuts it.
\<close>

definition abort_prefix :: "'h world \<Rightarrow> string" where
  "abort_prefix w =
     (if 0 \<le> sint (p4est_base_identifier w)
      then ''['' @ fmt_d (p4est_base_identifier w) @ ''] ''
      else [])"

text \<open>\<open>strrchr (s, c)\<close>: the rest of \<open>s\<close> from the last \<open>c\<close> on, or the null pointer.\<close>

fun strrchr :: "string \<Rightarrow> char \<Rightarrow> string option" where
  "strrchr [] c = None"
| "strrchr (x # xs) c =
     (case strrchr xs c of
        Some r \<Rightarrow> Some r
      | None \<Rightarrow> if x = c then Some (x # xs) else None)"

section \<open>The allocation wrappers\<close>

text \<open>
  Each wrapper calls the platform function first and counts afterwards. \<open>++malloc_count\<close>
  and \<open>++free_count\<close> are additions on \<open>int\<close>: the model lets them wrap around where C
  leaves the overflow undefined.
\<close>

definition p4est_malloc :: "'h platform \<Rightarrow> size_t \<Rightarrow> 'h world \<Rightarrow> ptr \<times> 'h world" where
  "p4est_malloc P sz w =
     (let (ret, h) = libc_malloc P sz (heap w);
          w1 = w\<lparr>heap := h\<rparr>;
          w2 = (if 0 < sz then w1\<lparr>malloc_count := malloc_count w1 + 1\<rparr>
                else w1\<lparr>malloc_count := malloc_count w1 + (if ret = NULL then 0 else 1)\<rparr>)
      in (ret, w2))"

text \<open>\<open>nmemb * size\<close> is a product of two \<open>size_t\<close>: it wraps around.\<close>

definition p4est_calloc ::
  "'h platform \<Rightarrow> size_t \<Rightarrow> size_t \<Rightarrow> 'h world \<Rightarrow> ptr \<times> 'h world" where
  "p4est_calloc P nmemb sz w =
     (let (ret, h) = libc_calloc P nmemb sz (heap w);
          w1 = w\<lparr>heap := h\<rparr>;
          w2 = (if 0 < nmemb * sz then w1\<lparr>malloc_count := malloc_count w1 + 1\<rparr>
                else w1\<lparr>malloc_count := malloc_count w1 + (if ret = NULL then 0 else 1)\<rparr>)
      in (ret, w2))"

definition p4est_realloc ::
  "'h platform \<Rightarrow> ptr \<Rightarrow> size_t \<Rightarrow> 'h world \<Rightarrow> ptr \<times> 'h world" where
  "p4est_realloc P p sz w =
     (let (ret, h) = libc_realloc P p sz (heap w);
          w1 = w\<lparr>heap := h\<rparr>;
          w2 = (if p = NULL then
                  (if 0 < sz then w1\<lparr>malloc_count := malloc_count w1 + 1\<rparr>
                   else w1\<lparr>malloc_count := malloc_count w1 + (if ret = NULL then 0 else 1)\<rparr>)
                else if sz = 0 then
                  w1\<lparr>free_count := free_count w1 + (if ret = NULL then 1 else 0)\<rparr>
                else w1)
      in (ret, w2))"

definition p4est_free :: "'h platform \<Rightarrow> ptr \<Rightarrow> 'h world \<Rightarrow> 'h world" where
  "p4est_free P p w =
     (if p \<noteq> NULL then
        (let w1 = w\<lparr>free_count := free_count w + 1\<rparr>
         in w1\<lparr>heap := libc_free P p (heap w1)\<rparr>)
      else w)"

section \<open>The abort path\<close>

text \<open>
  The loop of \<open>p4est_abort\<close> over the frames: the string after the last slash, or the
  whole string when it has no slash, is printed behind the prefix and three spaces.
\<close>

fun print_frames :: "string \<Rightarrow> string list \<Rightarrow> 'h world \<Rightarrow> 'h world" where
  "print_frames prefix [] w = w"
| "print_frames prefix (s # bt_strings) w =
     (let str = (case strrchr s (CHR ''/'') of Some r \<Rightarrow> tl r | None \<Rightarrow> s)
      in print_frames prefix bt_strings
           (emit (Stderr (prefix @ ''   '' @ str @ [newline])) w))"

text \<open>
  The block of \<open>p4est_abort\<close> under \<open>#ifdef P4EST_BACKTRACE\<close>: at most 64 return
  addresses, their strings, the header and the frames. When \<open>backtrace_symbols\<close> has
  returned the null pointer and there is a frame, the loop reads through the null pointer
  (\<open>Inl\<close>). \<open>free (bt_strings)\<close> calls the platform directly and changes no counter.
\<close>

definition print_backtrace :: "'h platform \<Rightarrow> string \<Rightarrow> 'h world \<Rightarrow> 'h world + 'h world" where
  "print_backtrace P prefix w =
     (let bt_buffer = libc_backtrace 64 w;
          bt_size = length bt_buffer;
          bt_strings = libc_backtrace_symbols P bt_buffer (heap w);
          w1 = emit (Stderr (prefix @ ''Abort: Obtained '' @ dec bt_size @
                             '' stack frames'' @ [newline])) w
      in case bt_strings of
           None \<Rightarrow> if 0 < bt_size then Inl w1 else Inr w1
         | Some strs \<Rightarrow> Inr (print_frames prefix strs w1))"

text \<open>
  \<open>p4est_abort\<close> does not return: the result is how the process ended and its last state.
  A registered handler is called with the registered data; the model records the call and
  goes on to \<open>abort ()\<close>, as the process does when the handler returns.
\<close>

definition p4est_abort :: "'h platform \<Rightarrow> 'h world \<Rightarrow> exit_kind \<times> 'h world" where
  "p4est_abort P w =
     (let prefix = abort_prefix w in
      case (if P4EST_BACKTRACE P then print_backtrace P prefix w else Inr w) of
        Inl w1 \<Rightarrow> (Null_dereference, w1)
      | Inr w1 \<Rightarrow>
          (let w2 = emit Fflush_stdout w1;
               w3 = emit Fflush_stderr w2;
               w4 = (if p4est_abort_handler w3 \<noteq> NULL
                     then emit (Handler_call (p4est_abort_handler w3) (p4est_abort_data w3)) w3
                     else w3)
           in (Aborted, emit Libc_abort w4)))"

definition p4est_signal_handler :: "'h platform \<Rightarrow> signum \<Rightarrow> 'h world \<Rightarrow> exit_kind \<times> 'h world" where
  "p4est_signal_handler P sig w =
     (let prefix = abort_prefix w;
          sigstr = (case sig of
                      SIGINT \<Rightarrow> ''INT''
                    | SIGSEGV \<Rightarrow> ''SEGV''
                    | SIGUSR2 \<Rightarrow> ''USR2''
                    | SIGOTHER n \<Rightarrow> ''<unknown>'')
      in p4est_abort P (emit (Stderr (prefix @ ''Abort: Signal '' @ sigstr @ [newline])) w))"

text \<open>What a failed check leaves: its message, and how and in which state the process ended.\<close>

type_synonym 'h fatal = "string \<times> exit_kind \<times> 'h world"

text \<open>
  Modelled from the spec: the macro \<open>P4EST_CHECK_ABORT (condition, message)\<close> is defined in
  \<open>p4est_base.h\<close>, which is not among the sources. The specification says of its uses that
  a failed check is fatal and ends the process through the abort path, and that a check that
  holds does nothing. The result \<open>Inl\<close> carries the message of the failed check and the
  outcome of \<open>p4est_abort\<close>; \<open>Inr\<close> is the unchanged state, with which the caller goes on.
\<close>

definition P4EST_CHECK_ABORT ::
  "'h platform \<Rightarrow> bool \<Rightarrow> string \<Rightarrow> 'h world \<Rightarrow> 'h fatal + 'h world" where
  "P4EST_CHECK_ABORT P c s w = (if c then Inr w else Inl (s, p4est_abort P w))"

definition p4est_memory_check :: "'h platform \<Rightarrow> 'h world \<Rightarrow> 'h fatal + 'h world" where
  "p4est_memory_check P w =
     P4EST_CHECK_ABORT P (malloc_count w = free_count w) ''Memory balance'' w"

section \<open>Installing and removing the signal handlers\<close>

text \<open>The first branch of \<open>p4est_set_abort_handler\<close>: catch the three signals.\<close>

definition catch_signals :: "'h platform \<Rightarrow> 'h world \<Rightarrow> 'h fatal + 'h world" where
  "catch_signals P w =
     (let (r1, w1) = libc_signal P SIGINT (p4est_signal_handler_addr P) w;
          w1 = w1\<lparr>system_int_handler := r1\<rparr>
      in case P4EST_CHECK_ABORT P (system_int_handler w1 \<noteq> SIG_ERR) ''catching INT'' w1 of
           Inl e \<Rightarrow> Inl e
         | Inr w1 \<Rightarrow>
     (let (r2, w2) = libc_signal P SIGSEGV (p4est_signal_handler_addr P) w1;
          w2 = w2\<lparr>system_segv_handler := r2\<rparr>
      in case P4EST_CHECK_ABORT P (system_segv_handler w2 \<noteq> SIG_ERR) ''catching SEGV'' w2 of
           Inl e \<Rightarrow> Inl e
         | Inr w2 \<Rightarrow>
     (let (r3, w3) = libc_signal P SIGUSR2 (p4est_signal_handler_addr P) w2;
          w3 = w3\<lparr>system_usr2_handler := r3\<rparr>
      in case P4EST_CHECK_ABORT P (system_usr2_handler w3 \<noteq> SIG_ERR) ''catching USR2'' w3 of
           Inl e \<Rightarrow> Inl e
         | Inr w3 \<Rightarrow> Inr (w3\<lparr>signals_caught := 1\<rparr>))))"

text \<open>
  The second branch: give the three signals their saved dispositions back. The results of
  these three calls of \<open>signal\<close> are not looked at.
\<close>

definition release_signals :: "'h platform \<Rightarrow> 'h world \<Rightarrow> 'h world" where
  "release_signals P w =
     (let w1 = snd (libc_signal P SIGINT (system_int_handler w) w);
          w1 = w1\<lparr>system_int_handler := NULL\<rparr>;
          w2 = snd (libc_signal P SIGSEGV (system_segv_handler w1) w1);
          w2 = w2\<lparr>system_segv_handler := NULL\<rparr>;
          w3 = snd (libc_signal P SIGUSR2 (system_usr2_handler w2) w2);
          w3 = w3\<lparr>system_usr2_handler := NULL\<rparr>
      in w3\<lparr>signals_caught := 0\<rparr>)"

definition p4est_set_abort_handler ::
  "'h platform \<Rightarrow> c_int \<Rightarrow> ptr \<Rightarrow> ptr \<Rightarrow> 'h world \<Rightarrow> 'h fatal + 'h world" where
  "p4est_set_abort_handler P identifier handler data w0 =
     (let w = w0\<lparr>p4est_base_identifier := identifier,
                 p4est_abort_handler := handler,
                 p4est_abort_data := data\<rparr>
      in if handler \<noteq> NULL \<and> signals_caught w = 0 then catch_signals P w
         else if handler = NULL \<and> signals_caught w \<noteq> 0 then Inr (release_signals P w)
         else Inr w)"

section \<open>An example platform and example states\<close>

text \<open>
  A platform whose allocator hands out blocks of up to 4096 bytes at fresh addresses and
  returns the null pointer for any other size, which accepts handlers for the three named
  signals, and which resolves symbols; and a process on it in which nothing has been
  allocated and no handler is installed. The theorems are run on them.
\<close>

definition example_platform :: "nat platform" where
  "example_platform =
     \<lparr> libc_malloc = (\<lambda>sz h. if sz = 0 \<or> 4096 < sz then (NULL, h)
                               else (0x1000 + 0x1000 * of_nat h, Suc h)),
       libc_calloc = (\<lambda>nmemb sz h. if nmemb * sz = 0 \<or> 4096 < nmemb * sz then (NULL, h)
                               else (0x1000 + 0x1000 * of_nat h, Suc h)),
       libc_realloc = (\<lambda>p sz h. if sz = 0 \<or> 4096 < sz then (NULL, h)
                               else if p = NULL then (0x1000 + 0x1000 * of_nat h, Suc h)
                               else (p, h)),
       libc_free = (\<lambda>p h. h),
       signal_refused = (\<lambda>sig. case sig of SIGOTHER n \<Rightarrow> True | _ \<Rightarrow> False),
       p4est_signal_handler_addr = 0x400000,
       symbol_of = (\<lambda>a. if a = 0x401000 then ''/usr/bin/app(main+0x10) [0x401000]''
                          else ''start''),
       symbols_alloc_fails = (\<lambda>h. False),
       P4EST_BACKTRACE = True \<rparr>"

definition example_world :: "nat world" where
  "example_world =
     \<lparr> malloc_count = 0, free_count = 0, p4est_base_identifier = - 1,
       p4est_abort_handler = NULL, p4est_abort_data = NULL, signals_caught = 0,
       system_int_handler = NULL, system_segv_handler = NULL, system_usr2_handler = NULL,
       heap = 0,
       dispositions = (\<lambda>sig. case sig of SIGINT \<Rightarrow> 0x500000 | SIGSEGV \<Rightarrow> 0 | _ \<Rightarrow> 1),
       call_stack = [0x401000, 0x402000],
       events = [] \<rparr>"

definition example_handler :: ptr where
  "example_handler = 0x400800"

text \<open>The example process after its handler has been installed under the identifier 7.\<close>

definition example_installed :: "nat world" where
  "example_installed =
     example_world\<lparr>p4est_base_identifier := 7,
       p4est_abort_handler := example_handler,
       p4est_abort_data := 0x7000,
       system_int_handler := 0x500000,
       system_segv_handler := 0,
       system_usr2_handler := 1,
       dispositions := (dispositions example_world)
          (SIGINT := 0x400000, SIGSEGV := 0x400000, SIGUSR2 := 0x400000),
       signals_caught := 1\<rparr>"

section \<open>The abort report in the words of the specification\<close>

text \<open>
  The specification describes the text \<open>p4est_abort\<close> writes: a header line with the number
  of frames, then one line per frame with the symbol's path stripped to the basename, every
  line behind \<open>[N]\<close> and a space when the identifier \<open>N\<close> is set. These definitions follow
  its words; they are compared with what the code writes.
\<close>

text \<open>The basename: what follows the last slash, the whole string when there is none.\<close>

definition spec_basename :: "string \<Rightarrow> string" where
  "spec_basename s = rev (takeWhile (\<lambda>c. c \<noteq> CHR ''/'') (rev s))"

text \<open>The identifier is set when it is not negative.\<close>

definition identifier_of :: "'h world \<Rightarrow> nat option" where
  "identifier_of w =
     (if 0 \<le> sint (p4est_base_identifier w) then Some (nat (sint (p4est_base_identifier w)))
      else None)"

definition id_tag :: "nat option \<Rightarrow> string" where
  "id_tag ident = (case ident of Some n \<Rightarrow> ''['' @ dec n @ ''] '' | None \<Rightarrow> [])"

definition report_header :: "nat option \<Rightarrow> nat \<Rightarrow> string" where
  "report_header ident frames =
     id_tag ident @ ''Abort: Obtained '' @ dec frames @ '' stack frames''"

text \<open>
  The frame line as the specification gives it, \<open>[N]\<close> and three spaces before the symbol;
  without an identifier the four characters of \<open>[N]\<close> and one space are left out.
\<close>

definition spec_frame_line :: "nat option \<Rightarrow> string \<Rightarrow> string" where
  "spec_frame_line ident symbol =
     (case ident of
        Some n \<Rightarrow> ''['' @ dec n @ '']   '' @ spec_basename symbol
      | None \<Rightarrow> ''  '' @ spec_basename symbol)"

text \<open>The frame line with three spaces between the tag (or the line's start) and the
  symbol.\<close>

definition frame_line :: "nat option \<Rightarrow> string \<Rightarrow> string" where
  "frame_line ident symbol = id_tag ident @ ''   '' @ spec_basename symbol"

definition unlines :: "string list \<Rightarrow> string" where
  "unlines ls = concat (map (\<lambda>l. l @ [newline]) ls)"

definition spec_report :: "nat option \<Rightarrow> string list \<Rightarrow> string" where
  "spec_report ident symbols =
     unlines (report_header ident (length symbols) # map (spec_frame_line ident) symbols)"

definition abort_report :: "nat option \<Rightarrow> string list \<Rightarrow> string" where
  "abort_report ident symbols =
     unlines (report_header ident (length symbols) # map (frame_line ident) symbols)"

section \<open>The lookup table holds the binary logarithm\<close>

lemma table_blocks:
  "p4est_log_lookup_table =
     [-1, 0] @ replicate 2 1 @ replicate 4 2 @ replicate 8 3 @ replicate 16 4 @
     replicate 32 5 @ replicate 64 6 @ replicate 128 7"
  by (simp add: p4est_log_lookup_table_def numeral_eq_Suc)

lemma table_nth:
  assumes "v < 256"
  shows "p4est_log_lookup_table ! v =
     (if v = 0 then -1 else if v < 2 then 0 else if v < 4 then 1 else if v < 8 then 2
      else if v < 16 then 3 else if v < 32 then 4 else if v < 64 then 5
      else if v < 128 then 6 else 7)"
  using assms unfolding table_blocks
  by (auto simp: nth_append nth_Cons')

lemma table_bounds:
  assumes "v < 256" "0 < v"
  shows "\<exists>k. p4est_log_lookup_table ! v = int k \<and> 2 ^ k \<le> v \<and> v < 2 ^ (k + 1)"
proof -
  consider "v < 2" | "2 \<le> v" "v < 4" | "4 \<le> v" "v < 8" | "8 \<le> v" "v < 16"
    | "16 \<le> v" "v < 32" | "32 \<le> v" "v < 64" | "64 \<le> v" "v < 128" | "128 \<le> v"
    by linarith
  then show ?thesis
  proof cases
    case 1 then show ?thesis using assms by (intro exI[of _ 0]) (simp add: table_nth)
  next
    case 2 then show ?thesis using assms by (intro exI[of _ 1]) (simp add: table_nth)
  next
    case 3 then show ?thesis using assms by (intro exI[of _ 2]) (simp add: table_nth)
  next
    case 4 then show ?thesis using assms by (intro exI[of _ 3]) (simp add: table_nth)
  next
    case 5 then show ?thesis using assms by (intro exI[of _ 4]) (simp add: table_nth)
  next
    case 6 then show ?thesis using assms by (intro exI[of _ 5]) (simp add: table_nth)
  next
    case 7 then show ?thesis using assms by (intro exI[of _ 6]) (simp add: table_nth)
  next
    case 8 then show ?thesis using assms by (intro exI[of _ 7]) (simp add: table_nth)
  qed
qed

text \<open>
  Claim C9. The table has 256 entries, and for every byte value \<open>v\<close> (an index from 0 to
  255) the entry at \<open>v\<close> is \<open>-1\<close> when \<open>v = 0\<close> and the floor of the binary logarithm of \<open>v\<close>
  otherwise.
\<close>

theorem log_lookup_table_floor_log2:
  "length p4est_log_lookup_table = 256 \<and>
   (\<forall>v < 256. p4est_log_lookup_table ! v = (if v = 0 then - 1 else \<lfloor>log 2 (real v)\<rfloor>))"
proof (intro conjI allI impI)
  show "length p4est_log_lookup_table = 256"
    by (simp add: p4est_log_lookup_table_def)
next
  fix v :: nat
  assume v: "v < 256"
  show "p4est_log_lookup_table ! v = (if v = 0 then - 1 else \<lfloor>log 2 (real v)\<rfloor>)"
  proof (cases "v = 0")
    case True
    then show ?thesis by (simp add: table_nth)
  next
    case False
    then obtain k where k: "p4est_log_lookup_table ! v = int k" "2 ^ k \<le> v" "v < 2 ^ (k + 1)"
      using table_bounds [OF v] by auto
    have "\<lfloor>log (real 2) (real v)\<rfloor> = int k"
      by (rule floor_log_nat_eq_if) (use k in simp_all)
    with k(1) False show ?thesis by simp
  qed
qed

text \<open>The four values the specification names, read off the theorem.\<close>

theorem log_lookup_table_floor_log2_witness:
  "p4est_log_lookup_table ! 0 = - 1 \<and> p4est_log_lookup_table ! 1 = 0 \<and>
   p4est_log_lookup_table ! 128 = 7 \<and> p4est_log_lookup_table ! 255 = 7 \<and>
   \<lfloor>log 2 (real (128 :: nat))\<rfloor> = 7 \<and> \<lfloor>log 2 (real (255 :: nat))\<rfloor> = 7"
proof -
  have t: "p4est_log_lookup_table ! 0 = - 1" "p4est_log_lookup_table ! 1 = 0"
    "p4est_log_lookup_table ! 128 = 7" "p4est_log_lookup_table ! 255 = 7"
    by (simp_all add: table_nth)
  from log_lookup_table_floor_log2
  have "p4est_log_lookup_table ! 128 = \<lfloor>log 2 (real (128 :: nat))\<rfloor>"
    and "p4est_log_lookup_table ! 255 = \<lfloor>log 2 (real (255 :: nat))\<rfloor>"
    by simp_all
  with t show ?thesis by simp
qed

section \<open>The allocation counters\<close>

lemma example_counts:
  "malloc_count example_world = 0" "free_count example_world = 0"
  by (simp_all add: example_world_def)

lemma example_malloc:
  "libc_malloc example_platform 8 (heap example_world) = (0x1000, 1)"
  "libc_malloc example_platform 8192 (heap example_world) = (NULL, 0)"
  "libc_malloc example_platform 0 (heap example_world) = (NULL, 0)"
  by (simp_all add: example_platform_def example_world_def)

lemma example_calloc:
  "libc_calloc example_platform 2 4 (heap example_world) = (0x1000, 1)"
  "libc_calloc example_platform 0x100000000 0x100000000 (heap example_world) = (NULL, 0)"
  by (simp_all add: example_platform_def example_world_def)

lemma example_realloc:
  "libc_realloc example_platform NULL 8 (heap example_world) = (0x1000, 1)"
  "libc_realloc example_platform NULL 0 (heap example_world) = (NULL, 0)"
  "libc_realloc example_platform 0x1000 0 (heap example_world) = (NULL, 0)"
  "libc_realloc example_platform 0x1000 16 (heap example_world) = (0x1000, 0)"
  "libc_realloc example_platform 0x1000 8192 (heap example_world) = (NULL, 0)"
  by (simp_all add: example_platform_def example_world_def)

text \<open>
  Claim C2. \<open>p4est_malloc\<close> returns what the platform's \<open>malloc\<close> returns and leaves the
  allocator in the state \<open>malloc\<close> left it in. For a size above zero it adds one to
  \<open>malloc_count\<close>, whatever was returned; for the size zero it adds one exactly when the
  returned pointer is not null. \<open>p4est_calloc\<close> does the same with the platform's \<open>calloc\<close>
  and with the product \<open>nmemb * size\<close>, computed in \<open>size_t\<close>, in the place of the size.
\<close>

theorem p4est_malloc_calloc_count:
  "(case p4est_malloc P sz w of (ret, w') \<Rightarrow>
      (ret, heap w') = libc_malloc P sz (heap w) \<and>
      (0 < sz \<longrightarrow> malloc_count w' = malloc_count w + 1) \<and>
      (sz = 0 \<longrightarrow> malloc_count w' = malloc_count w + (if ret \<noteq> NULL then 1 else 0))) \<and>
   (case p4est_calloc P nmemb sz2 w of (ret, w') \<Rightarrow>
      (ret, heap w') = libc_calloc P nmemb sz2 (heap w) \<and>
      (0 < nmemb * sz2 \<longrightarrow> malloc_count w' = malloc_count w + 1) \<and>
      (nmemb * sz2 = 0 \<longrightarrow> malloc_count w' = malloc_count w + (if ret \<noteq> NULL then 1 else 0)))"
  by (simp add: p4est_malloc_def p4est_calloc_def Let_def split: prod.splits)

text \<open>
  On the example platform: 8 bytes are granted and counted, 8192 bytes are refused and
  counted all the same, 0 bytes give the null pointer and are not counted; \<open>calloc (2, 4)\<close>
  is granted and counted, and \<open>calloc\<close> of \<open>2^32\<close> members of \<open>2^32\<close> bytes, whose product
  is 0 in \<open>size_t\<close>, is refused and not counted.
\<close>

theorem p4est_malloc_calloc_count_witness:
  "fst (p4est_malloc example_platform 8 example_world) = 0x1000 \<and>
   malloc_count (snd (p4est_malloc example_platform 8 example_world)) = 1 \<and>
   fst (p4est_malloc example_platform 8192 example_world) = NULL \<and>
   malloc_count (snd (p4est_malloc example_platform 8192 example_world)) = 1 \<and>
   fst (p4est_malloc example_platform 0 example_world) = NULL \<and>
   malloc_count (snd (p4est_malloc example_platform 0 example_world)) = 0 \<and>
   fst (p4est_calloc example_platform 2 4 example_world) = 0x1000 \<and>
   malloc_count (snd (p4est_calloc example_platform 2 4 example_world)) = 1 \<and>
   fst (p4est_calloc example_platform 0x100000000 0x100000000 example_world) = NULL \<and>
   malloc_count (snd (p4est_calloc example_platform 0x100000000 0x100000000 example_world)) = 0"
  using p4est_malloc_calloc_count [of example_platform 8 example_world 2 4]
    p4est_malloc_calloc_count [of example_platform 8192 example_world "0x100000000" "0x100000000"]
    p4est_malloc_calloc_count [of example_platform 0 example_world 2 4]
  by (simp add: split_beta example_malloc example_calloc example_counts prod_eq_iff)

text \<open>
  Claim C5. With the null pointer as its first argument, \<open>p4est_realloc\<close> is \<open>p4est_malloc\<close>
  with the platform's \<open>realloc (NULL, _)\<close> in the place of \<open>malloc\<close>: it returns what the
  platform returns, adds one to \<open>malloc_count\<close> when the size is above zero or the returned
  pointer is not null, and leaves \<open>free_count\<close> alone. With a pointer that is not null and
  the size zero it adds one to \<open>free_count\<close> exactly when the platform returned the null
  pointer, and leaves \<open>malloc_count\<close> alone.
\<close>

theorem p4est_realloc_count:
  "p4est_malloc (P\<lparr>libc_malloc := libc_realloc P NULL\<rparr>) sz w = p4est_realloc P NULL sz w \<and>
   (case p4est_realloc P NULL sz w of (ret, w') \<Rightarrow>
      (ret, heap w') = libc_realloc P NULL sz (heap w) \<and>
      malloc_count w' = malloc_count w + (if 0 < sz \<or> ret \<noteq> NULL then 1 else 0) \<and>
      free_count w' = free_count w) \<and>
   (p \<noteq> NULL \<longrightarrow>
     (case p4est_realloc P p 0 w of (ret, w') \<Rightarrow>
        (ret, heap w') = libc_realloc P p 0 (heap w) \<and>
        free_count w' = free_count w + (if ret = NULL then 1 else 0) \<and>
        malloc_count w' = malloc_count w))"
  by (simp add: p4est_realloc_def p4est_malloc_def Let_def split: prod.splits)

theorem p4est_realloc_count_witness:
  "malloc_count (snd (p4est_realloc example_platform NULL 8 example_world)) = 1 \<and>
   malloc_count (snd (p4est_realloc example_platform NULL 0 example_world)) = 0 \<and>
   (0x1000 :: ptr) \<noteq> NULL \<and>
   fst (p4est_realloc example_platform 0x1000 0 example_world) = NULL \<and>
   free_count (snd (p4est_realloc example_platform 0x1000 0 example_world)) = 1"
  using p4est_realloc_count [of example_platform 8 example_world "0x1000"]
    p4est_realloc_count [of example_platform 0 example_world "0x1000"]
  by (simp add: split_beta example_realloc example_counts prod_eq_iff)

text \<open>
  Claim C10. With a pointer that is not null and a size above zero, \<open>p4est_realloc\<close> changes
  neither counter, whatever the platform's \<open>realloc\<close> returns, and returns that pointer.
\<close>

theorem p4est_realloc_resize_frame:
  assumes "p \<noteq> NULL" and "0 < sz"
  shows "malloc_count (snd (p4est_realloc P p sz w)) = malloc_count w \<and>
         free_count (snd (p4est_realloc P p sz w)) = free_count w \<and>
         fst (p4est_realloc P p sz w) = fst (libc_realloc P p sz (heap w))"
  using assms by (auto simp add: p4est_realloc_def Let_def split: prod.splits)

text \<open>A resize to 16 bytes that succeeds in place, and one to 8192 bytes that fails.\<close>

theorem p4est_realloc_resize_frame_witness:
  "(0x1000 :: ptr) \<noteq> NULL \<and> (0 :: size_t) < 16 \<and> (0 :: size_t) < 8192 \<and>
   fst (p4est_realloc example_platform 0x1000 16 example_world) = 0x1000 \<and>
   malloc_count (snd (p4est_realloc example_platform 0x1000 16 example_world)) = 0 \<and>
   free_count (snd (p4est_realloc example_platform 0x1000 16 example_world)) = 0 \<and>
   fst (p4est_realloc example_platform 0x1000 8192 example_world) = NULL \<and>
   malloc_count (snd (p4est_realloc example_platform 0x1000 8192 example_world)) = 0 \<and>
   free_count (snd (p4est_realloc example_platform 0x1000 8192 example_world)) = 0"
  using p4est_realloc_resize_frame [of "0x1000" 16 example_platform example_world]
    p4est_realloc_resize_frame [of "0x1000" 8192 example_platform example_world]
  by (simp add: example_realloc example_counts)

text \<open>
  Claim C6. \<open>p4est_free\<close> of the null pointer changes nothing: both counters, the allocator
  and everything else stay as they are. \<open>p4est_free\<close> of any other pointer adds one to
  \<open>free_count\<close>, leaves \<open>malloc_count\<close> alone and hands the pointer to the platform's \<open>free\<close>.
\<close>

theorem p4est_free_count:
  "p4est_free P NULL w = w \<and>
   (p \<noteq> NULL \<longrightarrow>
      free_count (p4est_free P p w) = free_count w + 1 \<and>
      malloc_count (p4est_free P p w) = malloc_count w \<and>
      heap (p4est_free P p w) = libc_free P p (heap w))"
  by (simp add: p4est_free_def Let_def)

theorem p4est_free_count_witness:
  "p4est_free example_platform NULL example_world = example_world \<and>
   (0x1000 :: ptr) \<noteq> NULL \<and>
   free_count (p4est_free example_platform 0x1000 example_world) = 1 \<and>
   malloc_count (p4est_free example_platform 0x1000 example_world) = 0"
  using p4est_free_count [of example_platform example_world "0x1000"]
  by (simp add: example_counts)

text \<open>
  Claim C4. \<open>p4est_memory_check\<close> ends in the abort path exactly when \<open>malloc_count\<close> and
  \<open>free_count\<close> differ: the failed check is the one with the message \<open>Memory balance\<close> and
  the process ends as \<open>p4est_abort\<close> ends it. When the two counters are equal the function
  returns, and the state is the one it was called in.
\<close>

theorem p4est_memory_check_balance:
  "((\<exists>e. p4est_memory_check P w = Inl e) \<longleftrightarrow> malloc_count w \<noteq> free_count w) \<and>
   (malloc_count w \<noteq> free_count w \<longrightarrow>
      p4est_memory_check P w = Inl (''Memory balance'', p4est_abort P w)) \<and>
   (malloc_count w = free_count w \<longrightarrow> p4est_memory_check P w = Inr w)"
  by (simp add: p4est_memory_check_def P4EST_CHECK_ABORT_def)

text \<open>The example process is balanced; after one allocation that is not freed it is not.\<close>

theorem p4est_memory_check_balance_witness:
  "p4est_memory_check example_platform example_world = Inr example_world \<and>
   malloc_count (snd (p4est_malloc example_platform 8 example_world)) \<noteq>
     free_count (snd (p4est_malloc example_platform 8 example_world)) \<and>
   (\<exists>e. p4est_memory_check example_platform (snd (p4est_malloc example_platform 8 example_world))
          = Inl e)"
proof -
  have m: "snd (p4est_malloc example_platform 8 example_world) =
             example_world\<lparr>heap := 1, malloc_count := 1\<rparr>"
    by (simp add: p4est_malloc_def example_malloc example_counts)
  show ?thesis
    using p4est_memory_check_balance [of example_platform example_world]
      p4est_memory_check_balance [of example_platform
        "snd (p4est_malloc example_platform 8 example_world)"]
    by (simp add: m example_counts)
qed

section \<open>Installing and removing the handlers\<close>

text \<open>When no call of \<open>signal\<close> is refused, the three signals are caught and the three
  dispositions they had are saved.\<close>

lemma catch_signals_returns:
  assumes "\<not> signal_refused P SIGINT" "\<not> signal_refused P SIGSEGV" "\<not> signal_refused P SIGUSR2"
    and "dispositions w SIGINT \<noteq> SIG_ERR" "dispositions w SIGSEGV \<noteq> SIG_ERR"
      "dispositions w SIGUSR2 \<noteq> SIG_ERR"
  shows "catch_signals P w =
           Inr (w\<lparr>system_int_handler := dispositions w SIGINT,
                  system_segv_handler := dispositions w SIGSEGV,
                  system_usr2_handler := dispositions w SIGUSR2,
                  dispositions := (dispositions w)
                     (SIGINT := p4est_signal_handler_addr P,
                      SIGSEGV := p4est_signal_handler_addr P,
                      SIGUSR2 := p4est_signal_handler_addr P),
                  signals_caught := 1\<rparr>)"
  using assms
  by (simp add: catch_signals_def libc_signal_def P4EST_CHECK_ABORT_def)

text \<open>And it returns in no other way.\<close>

lemma catch_signals_InrD:
  assumes "catch_signals P w = Inr w1"
  shows "\<not> signal_refused P SIGINT \<and> \<not> signal_refused P SIGSEGV \<and> \<not> signal_refused P SIGUSR2 \<and>
         w1 = w\<lparr>system_int_handler := dispositions w SIGINT,
                  system_segv_handler := dispositions w SIGSEGV,
                  system_usr2_handler := dispositions w SIGUSR2,
                  dispositions := (dispositions w)
                     (SIGINT := p4est_signal_handler_addr P,
                      SIGSEGV := p4est_signal_handler_addr P,
                      SIGUSR2 := p4est_signal_handler_addr P),
                  signals_caught := 1\<rparr>"
  using assms
  by (auto simp add: catch_signals_def libc_signal_def P4EST_CHECK_ABORT_def Let_def
      split: if_splits)

lemma release_signals_restores:
  assumes "\<not> signal_refused P SIGINT" "\<not> signal_refused P SIGSEGV" "\<not> signal_refused P SIGUSR2"
  shows "release_signals P w =
           w\<lparr>dispositions := (dispositions w)
                 (SIGINT := system_int_handler w,
                  SIGSEGV := system_segv_handler w,
                  SIGUSR2 := system_usr2_handler w),
              system_int_handler := NULL,
              system_segv_handler := NULL,
              system_usr2_handler := NULL,
              signals_caught := 0\<rparr>"
  using assms by (simp add: release_signals_def libc_signal_def)

lemma example_install:
  "p4est_set_abort_handler example_platform 7 example_handler 0x7000 example_world =
     Inr example_installed"
  by (simp add: p4est_set_abort_handler_def example_handler_def example_installed_def
      catch_signals_returns example_world_def example_platform_def SIG_ERR_def)

text \<open>
  Claim C1. Let \<open>p4est_set_abort_handler\<close> be called with a handler that is not null in a
  state where no signals are caught (\<open>signals_caught\<close> is 0), and let the call return. Then
  the three signals are caught by \<open>p4est_signal_handler\<close>, and the call with the null
  handler that follows returns and undoes this: the dispositions of all signals are the
  ones from before the first call, \<open>signals_caught\<close> is 0 again, the three saved
  dispositions and the registered handler are null. The whole state is the first one but
  for the identifier, the handler and the data pointer, which are as the second call set
  them.
\<close>

theorem install_then_remove_restores:
  assumes "signals_caught w = 0" and "handler \<noteq> NULL"
    and "p4est_set_abort_handler P identifier handler data w = Inr w1"
  shows "dispositions w1 = (dispositions w)
           (SIGINT := p4est_signal_handler_addr P,
            SIGSEGV := p4est_signal_handler_addr P,
            SIGUSR2 := p4est_signal_handler_addr P) \<and>
         signals_caught w1 = 1 \<and>
         (\<exists>w2. p4est_set_abort_handler P identifier NULL data w1 = Inr w2 \<and>
            dispositions w2 = dispositions w \<and>
            signals_caught w2 = 0 \<and>
            system_int_handler w2 = NULL \<and>
            system_segv_handler w2 = NULL \<and>
            system_usr2_handler w2 = NULL \<and>
            p4est_abort_handler w2 = NULL \<and>
            w2 = w\<lparr>p4est_base_identifier := identifier,
                    p4est_abort_handler := NULL,
                    p4est_abort_data := data,
                    system_int_handler := NULL,
                    system_segv_handler := NULL,
                    system_usr2_handler := NULL\<rparr>)"
proof -
  let ?w = "w\<lparr>p4est_base_identifier := identifier,
               p4est_abort_handler := handler,
               p4est_abort_data := data\<rparr>"
  from assms have "catch_signals P ?w = Inr w1"
    by (simp add: p4est_set_abort_handler_def)
  from catch_signals_InrD [OF this]
  have ok: "\<not> signal_refused P SIGINT" "\<not> signal_refused P SIGSEGV" "\<not> signal_refused P SIGUSR2"
    and w1: "w1 = ?w\<lparr>system_int_handler := dispositions ?w SIGINT,
                  system_segv_handler := dispositions ?w SIGSEGV,
                  system_usr2_handler := dispositions ?w SIGUSR2,
                  dispositions := (dispositions ?w)
                     (SIGINT := p4est_signal_handler_addr P,
                      SIGSEGV := p4est_signal_handler_addr P,
                      SIGUSR2 := p4est_signal_handler_addr P),
                  signals_caught := 1\<rparr>"
    by simp_all
  have d: "(dispositions w)
             (SIGINT := dispositions w SIGINT,
              SIGSEGV := dispositions w SIGSEGV,
              SIGUSR2 := dispositions w SIGUSR2) = dispositions w"
    by (simp add: fun_eq_iff)
  have "p4est_set_abort_handler P identifier NULL data w1 =
          Inr (release_signals P (w1\<lparr>p4est_base_identifier := identifier,
                 p4est_abort_handler := NULL, p4est_abort_data := data\<rparr>))"
    by (simp add: p4est_set_abort_handler_def w1)
  then show ?thesis
    using assms(1) by (simp add: release_signals_restores [OF ok] w1 d)
qed

text \<open>
  The example process installs a handler under the identifier 7: the interrupt signal,
  which had the handler at \<open>0x500000\<close>, is caught at \<open>0x400000\<close>, and after the removal all
  dispositions are the first ones.
\<close>

theorem install_then_remove_restores_witness:
  "signals_caught example_world = 0 \<and> example_handler \<noteq> NULL \<and>
   p4est_set_abort_handler example_platform 7 example_handler 0x7000 example_world =
     Inr example_installed \<and>
   dispositions example_world SIGINT = 0x500000 \<and>
   dispositions example_installed SIGINT = 0x400000 \<and>
   (\<exists>w2. p4est_set_abort_handler example_platform 7 NULL 0x7000 example_installed = Inr w2 \<and>
      dispositions w2 = dispositions example_world \<and> signals_caught w2 = 0)"
  using install_then_remove_restores [of example_world example_handler example_platform 7
      "0x7000" example_installed]
  by (simp add: example_install)
    (simp add: example_world_def example_handler_def example_platform_def)

text \<open>
  Claim C7. When \<open>p4est_set_abort_handler\<close> is called with a handler that is not null while
  the signals are caught already (\<open>signals_caught\<close> is not 0), it returns, and the state it
  returns is the one it was called in with the identifier, the handler and the data pointer
  replaced: the dispositions of the signals and the three saved dispositions are untouched.
\<close>

theorem p4est_set_abort_handler_rebind:
  assumes "handler \<noteq> NULL" and "signals_caught w \<noteq> 0"
  shows "p4est_set_abort_handler P identifier handler data w =
           Inr (w\<lparr>p4est_base_identifier := identifier,
                  p4est_abort_handler := handler,
                  p4est_abort_data := data\<rparr>)"
  using assms by (simp add: p4est_set_abort_handler_def Let_def)

theorem p4est_set_abort_handler_rebind_witness:
  "(0x400900 :: ptr) \<noteq> NULL \<and> signals_caught example_installed \<noteq> 0 \<and>
   (\<exists>w'. p4est_set_abort_handler example_platform 3 0x400900 0x7100 example_installed = Inr w' \<and>
      p4est_base_identifier w' = 3 \<and> p4est_abort_handler w' = 0x400900 \<and>
      p4est_abort_data w' = 0x7100 \<and>
      dispositions w' = dispositions example_installed \<and>
      system_int_handler w' = 0x500000 \<and> system_segv_handler w' = 0 \<and>
      system_usr2_handler w' = 1)"
  using p4est_set_abort_handler_rebind [of "0x400900" example_installed example_platform 3 "0x7100"]
  by (simp add: example_installed_def)

section \<open>The text of the abort report\<close>

lemma stderr_text_append: "stderr_text (xs @ ys) = stderr_text xs @ stderr_text ys"
  by (induction xs rule: stderr_text.induct) simp_all

lemma stderr_text_map: "stderr_text (map (\<lambda>s. Stderr (f s)) xs) = concat (map f xs)"
  by (induction xs) simp_all

lemma strrchr_None_iff: "strrchr s c = None \<longleftrightarrow> c \<notin> set s"
  by (induction s) (auto split: option.splits)

text \<open>What the loop prints of a frame's string is its basename.\<close>

lemma strrchr_basename:
  "(case strrchr s (CHR ''/'') of Some r \<Rightarrow> tl r | None \<Rightarrow> s) = spec_basename s"
proof (induction s)
  case Nil
  show ?case by (simp add: spec_basename_def)
next
  case (Cons x xs)
  show ?case
  proof (cases "strrchr xs (CHR ''/'')")
    case None
    then have "CHR ''/'' \<notin> set xs" by (simp add: strrchr_None_iff)
    then have "takeWhile (\<lambda>c. c \<noteq> CHR ''/'') (rev xs @ [x]) =
                 rev xs @ takeWhile (\<lambda>c. c \<noteq> CHR ''/'') [x]"
      by (intro takeWhile_append2) auto
    with None show ?thesis by (simp add: spec_basename_def)
  next
    case (Some r)
    then have "CHR ''/'' \<in> set (rev xs)"
      using strrchr_None_iff [of xs "CHR ''/''"] by simp
    then have "takeWhile (\<lambda>c. c \<noteq> CHR ''/'') (rev xs @ [x]) =
                 takeWhile (\<lambda>c. c \<noteq> CHR ''/'') (rev xs)"
      by (intro takeWhile_append1) auto
    with Some Cons.IH show ?thesis by (simp add: spec_basename_def)
  qed
qed

lemma print_frames_events:
  "print_frames prefix strs w =
     w\<lparr>events := events w @
          map (\<lambda>s. Stderr (prefix @ ''   '' @ spec_basename s @ [newline])) strs\<rparr>"
  by (induction strs arbitrary: w) (simp_all add: strrchr_basename emit_def)

lemma abort_prefix_id_tag: "abort_prefix w = id_tag (identifier_of w)"
  by (simp add: abort_prefix_def id_tag_def identifier_of_def fmt_d_def)

lemma print_backtrace_text:
  assumes "\<not> symbols_alloc_fails P (heap w)"
  shows "\<exists>w1. print_backtrace P (abort_prefix w) w = Inr w1 \<and>
           p4est_abort_handler w1 = p4est_abort_handler w \<and>
           stderr_text (events w1) = stderr_text (events w) @
             abort_report (identifier_of w) (map (symbol_of P) (take 64 (call_stack w)))"
  using assms
  by (simp add: print_backtrace_def libc_backtrace_def libc_backtrace_symbols_def Let_def
      print_frames_events stderr_text_append stderr_text_map emit_def abort_report_def
      unlines_def report_header_def frame_line_def abort_prefix_id_tag comp_def)

lemma p4est_abort_text:
  assumes "P4EST_BACKTRACE P" and "\<not> symbols_alloc_fails P (heap w)"
  shows "fst (p4est_abort P w) = Aborted \<and>
         stderr_text (events (snd (p4est_abort P w))) =
           stderr_text (events w) @
           abort_report (identifier_of w) (map (symbol_of P) (take 64 (call_stack w)))"
proof -
  from print_backtrace_text [OF assms(2)] obtain w1 where
    w1: "print_backtrace P (abort_prefix w) w = Inr w1"
      "stderr_text (events w1) = stderr_text (events w) @
         abort_report (identifier_of w) (map (symbol_of P) (take 64 (call_stack w)))"
    by blast
  show ?thesis
    using assms(1) w1
    by (simp add: p4est_abort_def Let_def emit_def stderr_text_append)
qed

lemma dec_digit: "n < 10 \<Longrightarrow> dec n = [digit_char n]"
  by (simp add: dec.simps)

lemma example_symbols:
  "map (symbol_of example_platform) (take 64 (call_stack example_installed)) =
     [''/usr/bin/app(main+0x10) [0x401000]'', ''start'']"
  "map (symbol_of example_platform) (take 64 (call_stack example_world)) =
     [''/usr/bin/app(main+0x10) [0x401000]'', ''start'']"
  by (simp_all add: example_installed_def example_world_def example_platform_def)

lemma example_identifier:
  "identifier_of example_installed = Some 7"
  "identifier_of example_world = None"
  by (simp_all add: identifier_of_def example_installed_def example_world_def)

lemma example_basename:
  "spec_basename ''/usr/bin/app(main+0x10) [0x401000]'' = ''app(main+0x10) [0x401000]''"
  "spec_basename ''start'' = ''start''"
  by (simp_all add: spec_basename_def)

lemma example_abort_report:
  "abort_report (Some 7) [''/usr/bin/app(main+0x10) [0x401000]'', ''start''] =
     ''[7] Abort: Obtained 2 stack frames'' @ [newline] @
     ''[7]    app(main+0x10) [0x401000]'' @ [newline] @
     ''[7]    start'' @ [newline]"
  "abort_report None [''/usr/bin/app(main+0x10) [0x401000]'', ''start''] =
     ''Abort: Obtained 2 stack frames'' @ [newline] @
     ''   app(main+0x10) [0x401000]'' @ [newline] @
     ''   start'' @ [newline]"
  by (simp_all add: abort_report_def unlines_def report_header_def frame_line_def id_tag_def
      example_basename dec_digit digit_char_def)

lemma example_spec_report:
  "spec_report (Some 7) [''/usr/bin/app(main+0x10) [0x401000]'', ''start''] =
     ''[7] Abort: Obtained 2 stack frames'' @ [newline] @
     ''[7]   app(main+0x10) [0x401000]'' @ [newline] @
     ''[7]   start'' @ [newline]"
  by (simp_all add: spec_report_def unlines_def report_header_def spec_frame_line_def
      id_tag_def example_basename dec_digit digit_char_def)

lemma example_backtrace_on:
  "P4EST_BACKTRACE example_platform"
  "\<not> symbols_alloc_fails example_platform h"
  by (simp_all add: example_platform_def)

lemma example_events: "events example_installed = []" "events example_world = []"
  by (simp_all add: example_installed_def example_world_def)

lemma example_abort_text:
  "stderr_text (events (snd (p4est_abort example_platform example_installed))) =
     ''[7] Abort: Obtained 2 stack frames'' @ [newline] @
     ''[7]    app(main+0x10) [0x401000]'' @ [newline] @
     ''[7]    start'' @ [newline]"
  using p4est_abort_text [of example_platform example_installed]
  by (simp add: example_backtrace_on example_symbols example_identifier example_abort_report
      example_events)

text \<open>
  Claim C8, as the code has it. With \<open>P4EST_BACKTRACE\<close> defined and the symbol strings
  resolved, \<open>p4est_abort\<close> reaches \<open>abort ()\<close> and the text it writes to the error stream is
  the header line \<open>Abort: Obtained <count> stack frames\<close> followed by one line per captured
  frame (at most 64), three spaces and the basename of the frame's symbol; each of these
  lines starts with \<open>[N]\<close> and a space when the identifier \<open>N\<close> is set (not negative), and
  with nothing else otherwise. A frame line under the identifier \<open>N\<close> so has four spaces
  between the bracket and the symbol.
\<close>

theorem p4est_abort_report:
  assumes "P4EST_BACKTRACE P" and "\<not> symbols_alloc_fails P (heap w)"
  shows "fst (p4est_abort P w) = Aborted \<and>
         stderr_text (events (snd (p4est_abort P w))) =
           stderr_text (events w) @
           abort_report (identifier_of w) (map (symbol_of P) (take 64 (call_stack w)))"
  using assms by (rule p4est_abort_text)

text \<open>The report of the example process with the identifier 7, and without an identifier.\<close>

theorem p4est_abort_report_witness:
  "P4EST_BACKTRACE example_platform \<and>
   \<not> symbols_alloc_fails example_platform (heap example_installed) \<and>
   \<not> symbols_alloc_fails example_platform (heap example_world) \<and>
   stderr_text (events (snd (p4est_abort example_platform example_installed))) =
     ''[7] Abort: Obtained 2 stack frames'' @ [newline] @
     ''[7]    app(main+0x10) [0x401000]'' @ [newline] @
     ''[7]    start'' @ [newline] \<and>
   stderr_text (events (snd (p4est_abort example_platform example_world))) =
     ''Abort: Obtained 2 stack frames'' @ [newline] @
     ''   app(main+0x10) [0x401000]'' @ [newline] @
     ''   start'' @ [newline]"
  using p4est_abort_report [of example_platform example_installed]
    p4est_abort_report [of example_platform example_world]
  by (simp add: example_backtrace_on example_symbols example_identifier example_abort_report
      example_events)

text \<open>
  Claim C8, as the specification words it, fails: with the identifier 7 and two frames the
  frame lines of the specification have three spaces behind \<open>[7]\<close>, those the code writes
  have four.
\<close>

theorem p4est_abort_spec_report_counterexample:
  "stderr_text (events (snd (p4est_abort example_platform example_installed))) \<noteq>
     spec_report (identifier_of example_installed)
       (map (symbol_of example_platform) (take 64 (call_stack example_installed)))"
  by (simp add: example_abort_text example_symbols example_identifier example_spec_report)

section \<open>The comparator overflows\<close>

text \<open>
  As long as the difference of the two values fits into 32 bits, the comparator returns
  it.
\<close>

lemma p4est_int32_compare_exact:
  assumes "- (2 ^ 31) \<le> sint (ucast v1 :: 32 word) - sint (ucast v2 :: 32 word)"
    and "sint (ucast v1 :: 32 word) - sint (ucast v2 :: 32 word) < 2 ^ 31"
  shows "sint (p4est_int32_compare v1 v2) =
           sint (ucast v1 :: 32 word) - sint (ucast v2 :: 32 word)"
  using assms
  by (simp add: p4est_int32_compare_def sint_word_diff signed_take_bit_int_eq_self)

text \<open>
  Claim C3 fails on the code. The arguments \<open>0x80000000\<close> and \<open>1\<close> are cast to the 32-bit
  values \<open>-2147483648\<close> and \<open>1\<close>; the first is the smaller one, and the comparator returns
  \<open>2147483647\<close>, a positive number.
\<close>

theorem p4est_int32_compare_overflow:
  "sint (ucast (0x80000000 :: ptr) :: 32 word) = - 2147483648 \<and>
   sint (ucast (1 :: ptr) :: 32 word) = 1 \<and>
   sint (p4est_int32_compare 0x80000000 1) = 2147483647"
  by (simp add: p4est_int32_compare_def)

end
